theory Spec2Isabelle
  imports Complex_Main "HOL-Library.Multiset" "HOL-Library.Char_ord" "HOL-Library.List_Lexorder"
begin

section \<open>The Gapminder dashboard (app1.py)\<close>

text \<open>
  The program is a Dash application over the Gapminder table. Its own code filters the
  table, sorts and truncates it, hands the rows to the charting library, and registers
  four callbacks. The table, the sorting routine, the charting library and the callback
  dispatcher are libraries that the program calls; they are modelled here as far as the
  program's data flows through them, and the model says where it does so.
\<close>

subsection \<open>Values\<close>

text \<open>
  A table cell is a string, an integer or a float. Floats are modelled by reals: only
  their order and equality are used, never their rounding, and the table is assumed to
  hold no NaN.
\<close>

datatype cell = CStr string | CInt int | CFloat real

text \<open>
  A control value as a callback receives it: a string or an integer, the two kinds of
  value the dropdowns of this program offer. Python's \<open>==\<close> between a string and an
  integer is false, as the equality of this datatype is. A callback can be sent other
  JSON values as well (a list, for one, makes the comparison of a column with it raise);
  they are outside this model, and every statement below is about strings and integers.
\<close>

datatype val = Str string | Num int

datatype error = KeyError string | ValueError string

subsection \<open>The data frame \<open>gapminder_df\<close>\<close>

text \<open>
  One row of \<open>plotly.data.gapminder()\<close>. The table itself is not part of the program:
  every function below takes it as the parameter \<open>gapminder_df\<close>.
\<close>

record row =
  country :: string
  continent :: string
  year :: int
  lifeExp :: real
  pop :: int
  gdpPercap :: real
  iso_alpha :: string
  iso_num :: int

type_synonym dataframe = "row list"

text \<open>The schema: the column names in the table's own order, each with its accessor.\<close>

definition column_table :: "(string \<times> (row \<Rightarrow> cell)) list" where
  "column_table =
     [(''country'', \<lambda>r. CStr (country r)),
      (''continent'', \<lambda>r. CStr (continent r)),
      (''year'', \<lambda>r. CInt (year r)),
      (''lifeExp'', \<lambda>r. CFloat (lifeExp r)),
      (''pop'', \<lambda>r. CInt (pop r)),
      (''gdpPercap'', \<lambda>r. CFloat (gdpPercap r)),
      (''iso_alpha'', \<lambda>r. CStr (iso_alpha r)),
      (''iso_num'', \<lambda>r. CInt (iso_num r))]"

text \<open>\<open>gapminder_df.columns\<close>\<close>

definition columns :: "string list" where
  "columns = map fst column_table"

text \<open>\<open>df[col]\<close> for one row; \<open>None\<close> is the \<open>KeyError\<close> of an unknown column name.\<close>

definition getitem :: "string \<Rightarrow> (row \<Rightarrow> cell) option" where
  "getitem col = map_of column_table col"

text \<open>\<open>Series.unique()\<close>: the distinct values in order of first appearance.\<close>

definition unique :: "'a list \<Rightarrow> 'a list" where
  "unique xs = rev (remdups (rev xs))"

text \<open>Lines 7 and 8: \<open>continents\<close> and \<open>years\<close>.\<close>

definition continents :: "dataframe \<Rightarrow> string list" where
  "continents gapminder_df = unique (map continent gapminder_df)"

definition years :: "dataframe \<Rightarrow> int list" where
  "years gapminder_df = sort (unique (map year gapminder_df))"

subsection \<open>Sorting\<close>

text \<open>
  The order \<open>sort_values(ascending=False)\<close> sorts a column by. Within one column all
  cells have the same kind, so the mixed cases never arise.
\<close>

fun cell_ge :: "cell \<Rightarrow> cell \<Rightarrow> bool" where
  "cell_ge (CInt a) (CInt b) = (b \<le> a)"
| "cell_ge (CFloat a) (CFloat b) = (b \<le> a)"
| "cell_ge (CStr a) (CStr b) = (b \<le> a)"
| "cell_ge _ _ = False"

text \<open>
  \<open>df.sort_values(by=col, ascending=False)\<close> is a library routine, called with its
  default algorithm. The program is modelled over any routine \<open>sort_values\<close> that
  returns the rows it was given, in descending order of the column.
\<close>

type_synonym sorter = "string \<Rightarrow> dataframe \<Rightarrow> dataframe"

definition sort_values_ok :: "sorter \<Rightarrow> bool" where
  "sort_values_ok sort_values \<longleftrightarrow>
     (\<forall>col f df. getitem col = Some f \<longrightarrow>
        mset (sort_values col df) = mset df \<and>
        sorted_wrt (\<lambda>a b. cell_ge (f a) (f b)) (sort_values col df))"

text \<open>One such routine, by insertion; it is used to run the program on examples.\<close>

fun insert_desc :: "(row \<Rightarrow> cell) \<Rightarrow> row \<Rightarrow> row list \<Rightarrow> row list" where
  "insert_desc f r [] = [r]"
| "insert_desc f r (x # xs) =
     (if cell_ge (f r) (f x) then r # x # xs else x # insert_desc f r xs)"

definition insertion_sort_values :: sorter where
  "insertion_sort_values col df =
     (case getitem col of None \<Rightarrow> df | Some f \<Rightarrow> foldr (insert_desc f) df [])"

subsection \<open>Figures\<close>

text \<open>
  What the charting library returns, as far as the program determines it: the data of
  the traces, the title and the height of the layout. Colours, margins, templates and
  text labels are constants of the calls and are left out.
\<close>

record bar_trace =
  trace_name :: string
  trace_x :: "cell list"
  trace_y :: "cell list"

record map_point =
  location :: string
  z :: cell
  hover_country :: string

datatype fig_data =
    Bars "bar_trace list"
  | Choropleth "map_point list"
  | Table "string list" "cell list list"

record figure =
  fig_data :: fig_data
  fig_title :: "string option"
  fig_height :: nat

text \<open>
  \<open>px.bar(df, x="country", y=y_col, color="country")\<close>: one trace for each distinct
  country, in order of first appearance, holding the bars of the rows of that country.
\<close>

definition px_bar :: "dataframe \<Rightarrow> (row \<Rightarrow> cell) \<Rightarrow> bar_trace list" where
  "px_bar df ycol =
     map (\<lambda>c. \<lparr>trace_name = c,
                trace_x = map (\<lambda>r. CStr (country r)) [r \<leftarrow> df. country r = c],
                trace_y = map ycol [r \<leftarrow> df. country r = c]\<rparr>)
         (unique (map country df))"

fun bars :: "fig_data \<Rightarrow> (cell \<times> cell) list" where
  "bars (Bars ts) = concat (map (\<lambda>t. zip (trace_x t) (trace_y t)) ts)"
| "bars _ = []"

text \<open>
  The points of a map, and the value a map shows at a location: \<open>None\<close> is a country
  drawn without data.
\<close>

fun points :: "fig_data \<Rightarrow> map_point list" where
  "points (Choropleth ps) = ps"
| "points _ = []"

definition value_at :: "figure \<Rightarrow> string \<Rightarrow> cell option" where
  "value_at fig loc = map_of (map (\<lambda>p. (location p, z p)) (points (fig_data fig))) loc"

subsection \<open>The chart builders\<close>

text \<open>Line 15: \<open>df.sort_values(by=y_col, ascending=False).head(15)\<close>.\<close>

definition sort_head :: "sorter \<Rightarrow> string \<Rightarrow> dataframe \<Rightarrow> dataframe" where
  "sort_head sort_values y_col df = take 15 (sort_values y_col df)"

text \<open>
  \<open>create_bar_chart(df, y_col, title)\<close>, lines 14 to 19. An unknown \<open>y_col\<close> raises
  \<open>KeyError\<close> in \<open>sort_values\<close>. The parameter \<open>title\<close> is not used by the body:
  \<open>px.bar\<close> is called without a title and \<open>update_layout\<close> sets the height and the
  margins only.
\<close>

definition create_bar_chart :: "sorter \<Rightarrow> dataframe \<Rightarrow> string \<Rightarrow> string \<Rightarrow> error + figure" where
  "create_bar_chart sort_values df y_col title =
     (case getitem y_col of
        None \<Rightarrow> Inl (KeyError y_col)
      | Some ycol \<Rightarrow>
          Inr \<lparr>fig_data = Bars (px_bar (sort_head sort_values y_col df) ycol),
               fig_title = None,
               fig_height = 500\<rparr>)"

text \<open>Decimal rendering of an integer, as an f-string does it.\<close>

definition digit_char :: "nat \<Rightarrow> char" where
  "digit_char d = char_of (48 + d)"

fun digits_onto :: "nat \<Rightarrow> string \<Rightarrow> string" where
  "digits_onto n acc =
     (let acc' = digit_char (n mod 10) # acc
      in if n < 10 then acc' else digits_onto (n div 10) acc')"

declare digits_onto.simps [simp del]

definition string_of_int :: "int \<Rightarrow> string" where
  "string_of_int i =
     (if i < 0 then CHR ''-'' # digits_onto (nat (- i)) [] else digits_onto (nat i) [])"

fun fmt :: "val \<Rightarrow> string" where
  "fmt (Str s) = s"
| "fmt (Num n) = string_of_int n"

text \<open>
  Lines 22, 26 and 30: the rows whose continent and year equal the two arguments.
\<close>

definition select_rows :: "dataframe \<Rightarrow> val \<Rightarrow> val \<Rightarrow> dataframe" where
  "select_rows gapminder_df continent_v year_v =
     [r \<leftarrow> gapminder_df. Str (continent r) = continent_v \<and> Num (year r) = year_v]"

definition create_population_chart :: "sorter \<Rightarrow> dataframe \<Rightarrow> val \<Rightarrow> val \<Rightarrow> error + figure" where
  "create_population_chart sort_values gapminder_df continent_v year_v =
     create_bar_chart sort_values (select_rows gapminder_df continent_v year_v) ''pop''
       (''Top 15 Populations in '' @ fmt continent_v @ '' ('' @ fmt year_v @ '')'')"

definition create_gdp_chart :: "sorter \<Rightarrow> dataframe \<Rightarrow> val \<Rightarrow> val \<Rightarrow> error + figure" where
  "create_gdp_chart sort_values gapminder_df continent_v year_v =
     create_bar_chart sort_values (select_rows gapminder_df continent_v year_v) ''gdpPercap''
       (''Top 15 GDP per Capita in '' @ fmt continent_v @ '' ('' @ fmt year_v @ '')'')"

definition create_life_exp_chart :: "sorter \<Rightarrow> dataframe \<Rightarrow> val \<Rightarrow> val \<Rightarrow> error + figure" where
  "create_life_exp_chart sort_values gapminder_df continent_v year_v =
     create_bar_chart sort_values (select_rows gapminder_df continent_v year_v) ''lifeExp''
       (''Top 15 Life Expectancy in '' @ fmt continent_v @ '' ('' @ fmt year_v @ '')'')"

text \<open>Line 34: the rows of one year.\<close>

definition select_year :: "dataframe \<Rightarrow> val \<Rightarrow> dataframe" where
  "select_year gapminder_df year_v = [r \<leftarrow> gapminder_df. Num (year r) = year_v]"

text \<open>
  \<open>px.choropleth(df, color=variable, locations="iso_alpha", ...)\<close>. A numeric column is
  a continuous colour: one point for each row, in the order of the rows, valued by the
  column. A column of strings is a discrete colour: the rows are grouped by the value of
  the column, in order of first appearance, and every point has the value 1.
\<close>

definition string_columns :: "string list" where
  "string_columns = [''country'', ''continent'', ''iso_alpha'']"

definition px_choropleth :: "dataframe \<Rightarrow> string \<Rightarrow> (row \<Rightarrow> cell) \<Rightarrow> map_point list" where
  "px_choropleth df variable col =
     (if variable \<in> set string_columns
      then concat (map (\<lambda>k. map (\<lambda>r. \<lparr>location = iso_alpha r, z = CInt 1, hover_country = country r\<rparr>)
                                  [r \<leftarrow> df. col r = k])
                       (unique (map col df)))
      else map (\<lambda>r. \<lparr>location = iso_alpha r, z = col r, hover_country = country r\<rparr>) df)"

text \<open>
  \<open>create_choropleth_map(variable, year)\<close>, lines 33 to 41. A \<open>variable\<close> that names no
  column makes \<open>px.choropleth\<close> raise \<open>ValueError\<close>.
\<close>

definition create_choropleth_map :: "dataframe \<Rightarrow> val \<Rightarrow> val \<Rightarrow> error + figure" where
  "create_choropleth_map gapminder_df variable year_v =
     (let df = select_year gapminder_df year_v in
      case variable of
        Num n \<Rightarrow> Inl (ValueError (string_of_int n))
      | Str v \<Rightarrow>
          (case getitem v of
             None \<Rightarrow> Inl (ValueError v)
           | Some col \<Rightarrow>
               Inr \<lparr>fig_data = Choropleth (px_choropleth df v col),
                    fig_title = Some (v @ '' Map ('' @ fmt year_v @ '')''),
                    fig_height = 600\<rparr>))"

text \<open>
  The figure of the Dataset tab, lines 69 to 72: the header is \<open>list(gapminder_df.columns)\<close>
  and the cells are \<open>[gapminder_df[col] for col in gapminder_df.columns]\<close>.
\<close>

fun column_values :: "dataframe \<Rightarrow> string list \<Rightarrow> error + cell list list" where
  "column_values df [] = Inr []"
| "column_values df (col # cols) =
     (case getitem col of
        None \<Rightarrow> Inl (KeyError col)
      | Some f \<Rightarrow>
          (case column_values df cols of
             Inl e \<Rightarrow> Inl e
           | Inr vs \<Rightarrow> Inr (map f df # vs)))"

definition dataset_table :: "dataframe \<Rightarrow> error + figure" where
  "dataset_table gapminder_df =
     (case column_values gapminder_df columns of
        Inl e \<Rightarrow> Inl e
      | Inr vs \<Rightarrow> Inr \<lparr>fig_data = Table columns vs, fig_title = None, fig_height = 600\<rparr>)"

subsection \<open>The controls\<close>

record dd_option =
  opt_label :: val
  opt_value :: val

record dropdown =
  dd_id :: string
  dd_options :: "dd_option list"
  dd_value :: val
  dd_clearable :: bool

text \<open>Lines 44 to 56. The default of the source's \<open>default\<close> parameter is passed by the layout below.\<close>

definition continent_dropdown :: "dataframe \<Rightarrow> string \<Rightarrow> val \<Rightarrow> dropdown" where
  "continent_dropdown gapminder_df id_value default_v =
     \<lparr>dd_id = id_value,
      dd_options = map (\<lambda>c. \<lparr>opt_label = Str c, opt_value = Str c\<rparr>) (continents gapminder_df),
      dd_value = default_v,
      dd_clearable = False\<rparr>"

definition year_dropdown :: "dataframe \<Rightarrow> string \<Rightarrow> val \<Rightarrow> dropdown" where
  "year_dropdown gapminder_df id_value default_v =
     \<lparr>dd_id = id_value,
      dd_options = map (\<lambda>y. \<lparr>opt_label = Num y, opt_value = Num y\<rparr>) (years gapminder_df),
      dd_value = default_v,
      dd_clearable = False\<rparr>"

text \<open>The eight dropdowns of the layout and the five graphs, named by their ids.\<close>

datatype control =
  Cont_pop | Year_pop | Cont_gdp | Year_gdp | Cont_life_exp | Year_life_exp | Var_map | Year_map

datatype graph = Dataset | Population | Gdp | Life_expectancy | Choropleth_map

fun layout_control :: "dataframe \<Rightarrow> control \<Rightarrow> dropdown" where
  "layout_control df Cont_pop = continent_dropdown df ''cont_pop'' (Str ''Asia'')"
| "layout_control df Year_pop = year_dropdown df ''year_pop'' (Num 1952)"
| "layout_control df Cont_gdp = continent_dropdown df ''cont_gdp'' (Str ''Asia'')"
| "layout_control df Year_gdp = year_dropdown df ''year_gdp'' (Num 1952)"
| "layout_control df Cont_life_exp = continent_dropdown df ''cont_life_exp'' (Str ''Asia'')"
| "layout_control df Year_life_exp = year_dropdown df ''year_life_exp'' (Num 1952)"
| "layout_control df Var_map =
     \<lparr>dd_id = ''var_map'',
      dd_options =
        [\<lparr>opt_label = Str ''Population'', opt_value = Str ''pop''\<rparr>,
         \<lparr>opt_label = Str ''GDP per Capita'', opt_value = Str ''gdpPercap''\<rparr>,
         \<lparr>opt_label = Str ''Life Expectancy'', opt_value = Str ''lifeExp''\<rparr>],
      dd_value = Str ''lifeExp'',
      dd_clearable = False\<rparr>"
| "layout_control df Year_map = year_dropdown df ''year_map'' (Num 1952)"

definition option_values :: "dataframe \<Rightarrow> control \<Rightarrow> val list" where
  "option_values df c = map opt_value (dd_options (layout_control df c))"

text \<open>The tab a control sits in, by the graph of that tab.\<close>

fun panel_of :: "control \<Rightarrow> graph" where
  "panel_of Cont_pop = Population"
| "panel_of Year_pop = Population"
| "panel_of Cont_gdp = Gdp"
| "panel_of Year_gdp = Gdp"
| "panel_of Cont_life_exp = Life_expectancy"
| "panel_of Year_life_exp = Life_expectancy"
| "panel_of Var_map = Choropleth_map"
| "panel_of Year_map = Choropleth_map"

subsection \<open>The callbacks\<close>

text \<open>Lines 157 to 171.\<close>

definition update_population_chart :: "sorter \<Rightarrow> dataframe \<Rightarrow> val \<Rightarrow> val \<Rightarrow> error + figure" where
  "update_population_chart sort_values gapminder_df continent_v year_v =
     create_population_chart sort_values gapminder_df continent_v year_v"

definition update_gdp_chart :: "sorter \<Rightarrow> dataframe \<Rightarrow> val \<Rightarrow> val \<Rightarrow> error + figure" where
  "update_gdp_chart sort_values gapminder_df continent_v year_v =
     create_gdp_chart sort_values gapminder_df continent_v year_v"

definition update_life_exp_chart :: "sorter \<Rightarrow> dataframe \<Rightarrow> val \<Rightarrow> val \<Rightarrow> error + figure" where
  "update_life_exp_chart sort_values gapminder_df continent_v year_v =
     create_life_exp_chart sort_values gapminder_df continent_v year_v"

definition update_choropleth_map :: "dataframe \<Rightarrow> val \<Rightarrow> val \<Rightarrow> error + figure" where
  "update_choropleth_map gapminder_df variable year_v =
     create_choropleth_map gapminder_df variable year_v"

text \<open>
  A \<open>@callback(Output(g, "figure"), [Input(a, "value"), Input(b, "value")])\<close> registers
  its function with the dispatcher: one output graph, two input controls.
\<close>

record callback =
  cb_output :: graph
  cb_input1 :: control
  cb_input2 :: control
  cb_handler :: "val \<Rightarrow> val \<Rightarrow> error + figure"

definition callbacks :: "sorter \<Rightarrow> dataframe \<Rightarrow> callback list" where
  "callbacks sort_values gapminder_df =
     [\<lparr>cb_output = Population, cb_input1 = Cont_pop, cb_input2 = Year_pop,
       cb_handler = update_population_chart sort_values gapminder_df\<rparr>,
      \<lparr>cb_output = Gdp, cb_input1 = Cont_gdp, cb_input2 = Year_gdp,
       cb_handler = update_gdp_chart sort_values gapminder_df\<rparr>,
      \<lparr>cb_output = Life_expectancy, cb_input1 = Cont_life_exp, cb_input2 = Year_life_exp,
       cb_handler = update_life_exp_chart sort_values gapminder_df\<rparr>,
      \<lparr>cb_output = Choropleth_map, cb_input1 = Var_map, cb_input2 = Year_map,
       cb_handler = update_choropleth_map gapminder_df\<rparr>]"

subsection \<open>The update cycle\<close>

text \<open>
  The dispatcher is the Dash library; it is modelled as its documentation describes it.
  The state of a page is the current value of every control and the figure last
  published to every graph. When a control changes, every callback that has it as an
  input is called with the current values of its inputs, and the figure it returns
  replaces the figure of its output; when the callback raises, its output keeps the
  figure it had.
\<close>

record app_state =
  control_values :: "control \<Rightarrow> val"
  figures :: "graph \<Rightarrow> figure option"

definition call :: "callback \<Rightarrow> app_state \<Rightarrow> error + figure" where
  "call cb s = cb_handler cb (control_values s (cb_input1 cb)) (control_values s (cb_input2 cb))"

definition publish :: "callback \<Rightarrow> app_state \<Rightarrow> app_state" where
  "publish cb s =
     (case call cb s of
        Inl e \<Rightarrow> s
      | Inr fig \<Rightarrow> s\<lparr>figures := (figures s)(cb_output cb \<mapsto> fig)\<rparr>)"

definition triggered :: "control \<Rightarrow> callback list \<Rightarrow> callback list" where
  "triggered c cbs = [cb \<leftarrow> cbs. cb_input1 cb = c \<or> cb_input2 cb = c]"

definition set_value :: "control \<Rightarrow> val \<Rightarrow> app_state \<Rightarrow> app_state" where
  "set_value c v s = s\<lparr>control_values := (control_values s)(c := v)\<rparr>"

definition on_change :: "sorter \<Rightarrow> dataframe \<Rightarrow> control \<Rightarrow> val \<Rightarrow> app_state \<Rightarrow> app_state" where
  "on_change sort_values gapminder_df c v s =
     fold publish (triggered c (callbacks sort_values gapminder_df)) (set_value c v s)"

text \<open>The figures that the cycle of one event computes, before they are published.\<close>

definition cycle_results ::
  "sorter \<Rightarrow> dataframe \<Rightarrow> control \<Rightarrow> val \<Rightarrow> app_state \<Rightarrow> (graph \<times> (error + figure)) list" where
  "cycle_results sort_values gapminder_df c v s =
     map (\<lambda>cb. (cb_output cb, call cb (set_value c v s)))
         (triggered c (callbacks sort_values gapminder_df))"

text \<open>
  The page after loading: every control at its default, the table in the Dataset graph,
  and every callback run once.
\<close>

definition initial_state :: "sorter \<Rightarrow> dataframe \<Rightarrow> app_state" where
  "initial_state sort_values gapminder_df =
     fold publish (callbacks sort_values gapminder_df)
       \<lparr>control_values = (\<lambda>c. dd_value (layout_control gapminder_df c)),
        figures = (\<lambda>g. if g = Dataset
                        then (case dataset_table gapminder_df of Inl e \<Rightarrow> None | Inr fig \<Rightarrow> Some fig)
                        else None)\<rparr>"

subsection \<open>An example table\<close>

text \<open>A few rows in the shape of the Gapminder table, to run the program on.\<close>

definition example_df :: dataframe where
  "example_df =
     [\<lparr>country = ''Afghanistan'', continent = ''Asia'', year = 1952, lifeExp = 28, pop = 8,
       gdpPercap = 779, iso_alpha = ''AFG'', iso_num = 4\<rparr>,
      \<lparr>country = ''Albania'', continent = ''Europe'', year = 1952, lifeExp = 55, pop = 1,
       gdpPercap = 1601, iso_alpha = ''ALB'', iso_num = 8\<rparr>,
      \<lparr>country = ''China'', continent = ''Asia'', year = 1952, lifeExp = 44, pop = 556,
       gdpPercap = 400, iso_alpha = ''CHN'', iso_num = 156\<rparr>,
      \<lparr>country = ''China'', continent = ''Asia'', year = 1957, lifeExp = 50, pop = 637,
       gdpPercap = 576, iso_alpha = ''CHN'', iso_num = 156\<rparr>,
      \<lparr>country = ''India'', continent = ''Asia'', year = 1952, lifeExp = 37, pop = 372,
       gdpPercap = 546, iso_alpha = ''IND'', iso_num = 356\<rparr>]"

section \<open>Properties\<close>

subsection \<open>The sorting routine\<close>

lemma getitem_cases:
  "getitem col = Some f \<Longrightarrow>
     (\<exists>g. f = (\<lambda>r. CStr (g r))) \<or> (\<exists>g. f = (\<lambda>r. CInt (g r))) \<or> (\<exists>g. f = (\<lambda>r. CFloat (g r)))"
  by (auto simp: getitem_def column_table_def split: if_splits)

lemma cell_ge_total_column:
  "getitem col = Some f \<Longrightarrow> cell_ge (f a) (f b) \<or> cell_ge (f b) (f a)"
  by (drule getitem_cases) auto

lemma cell_ge_trans: "cell_ge x y \<Longrightarrow> cell_ge y w \<Longrightarrow> cell_ge x w"
  by (cases x; cases y; cases w) auto

lemma mset_insert_desc: "mset (insert_desc f r xs) = add_mset r (mset xs)"
  by (induction xs) auto

lemma set_insert_desc: "set (insert_desc f r xs) = insert r (set xs)"
  by (induction xs) auto

lemma sorted_insert_desc:
  assumes tot: "\<And>a b. cell_ge (f a) (f b) \<or> cell_ge (f b) (f a)"
  shows "sorted_wrt (\<lambda>a b. cell_ge (f a) (f b)) xs \<Longrightarrow>
         sorted_wrt (\<lambda>a b. cell_ge (f a) (f b)) (insert_desc f r xs)"
proof (induction xs)
  case Nil
  then show ?case by simp
next
  case (Cons x xs)
  show ?case
  proof (cases "cell_ge (f r) (f x)")
    case True
    with Cons.prems show ?thesis by (auto intro: cell_ge_trans)
  next
    case False
    with tot have "cell_ge (f x) (f r)" by blast
    with False Cons show ?thesis by (auto simp: set_insert_desc)
  qed
qed

lemma insertion_sort_values_ok: "sort_values_ok insertion_sort_values"
  unfolding sort_values_ok_def
proof (intro allI impI)
  fix col f df
  assume g: "getitem col = Some f"
  have m: "mset (foldr (insert_desc f) df []) = mset df"
    by (induction df) (simp_all add: mset_insert_desc)
  have s: "sorted_wrt (\<lambda>a b. cell_ge (f a) (f b)) (foldr (insert_desc f) df [])"
    by (induction df) (simp_all add: sorted_insert_desc cell_ge_total_column [OF g])
  from g m s
  show "mset (insertion_sort_values col df) = mset df \<and>
        sorted_wrt (\<lambda>a b. cell_ge (f a) (f b)) (insertion_sort_values col df)"
    by (simp add: insertion_sort_values_def)
qed

lemma getitem_pop: "getitem ''pop'' = Some (\<lambda>r. CInt (pop r))"
  by (simp add: getitem_def column_table_def)

lemma getitem_gdpPercap: "getitem ''gdpPercap'' = Some (\<lambda>r. CFloat (gdpPercap r))"
  by (simp add: getitem_def column_table_def)

lemma getitem_lifeExp: "getitem ''lifeExp'' = Some (\<lambda>r. CFloat (lifeExp r))"
  by (simp add: getitem_def column_table_def)

lemma sort_values_set:
  "sort_values_ok srt \<Longrightarrow> getitem col = Some f \<Longrightarrow> set (srt col df) = set df"
  unfolding sort_values_ok_def by (metis set_mset_mset)

lemma sort_values_length:
  "sort_values_ok srt \<Longrightarrow> getitem col = Some f \<Longrightarrow> length (srt col df) = length df"
  unfolding sort_values_ok_def by (metis size_mset)

lemma sort_values_sorted:
  "sort_values_ok srt \<Longrightarrow> getitem col = Some f \<Longrightarrow>
     sorted_wrt (\<lambda>a b. cell_ge (f a) (f b)) (srt col df)"
  unfolding sort_values_ok_def by blast

lemma sorted_wrt_take: "sorted_wrt P xs \<Longrightarrow> sorted_wrt P (take n xs)"
  by (metis append_take_drop_id sorted_wrt_append)

lemma sort_head_props:
  assumes "sort_values_ok srt" and "getitem col = Some f"
  shows "length (sort_head srt col df) \<le> 15"
    and "set (sort_head srt col df) \<subseteq> set df"
    and "sorted_wrt (\<lambda>a b. cell_ge (f a) (f b)) (sort_head srt col df)"
    and "length df \<le> 15 \<Longrightarrow> mset (sort_head srt col df) = mset df"
proof -
  show "length (sort_head srt col df) \<le> 15" by (simp add: sort_head_def)
  show "set (sort_head srt col df) \<subseteq> set df"
    using sort_values_set [OF assms] set_take_subset [of 15 "srt col df"]
    by (simp add: sort_head_def)
  show "sorted_wrt (\<lambda>a b. cell_ge (f a) (f b)) (sort_head srt col df)"
    using sort_values_sorted [OF assms] by (simp add: sort_head_def sorted_wrt_take)
  show "length df \<le> 15 \<Longrightarrow> mset (sort_head srt col df) = mset df"
    using assms sort_values_length [OF assms, of df]
    by (simp add: sort_head_def sort_values_ok_def)
qed


lemma unique_Nil: "unique [] = []"
  by (simp add: unique_def)

lemma set_unique: "set (unique xs) = set xs"
  by (simp add: unique_def)

lemma distinct_unique: "distinct (unique xs)"
  by (simp add: unique_def)

lemma px_bar_Nil: "px_bar [] f = []"
  by (simp add: px_bar_def unique_Nil)

text \<open>The bar chart has one bar for each row it is given.\<close>

lemma sum_list_indicator:
  "distinct ks \<Longrightarrow> (\<Sum>k\<leftarrow>ks. if a = k then 1 else 0) = (if a \<in> set ks then 1 else (0::nat))"
  by (induction ks) auto

lemma length_groups:
  "distinct ks \<Longrightarrow> f ` set rs \<subseteq> set ks \<Longrightarrow>
     (\<Sum>k\<leftarrow>ks. length [r \<leftarrow> rs. f r = k]) = length rs"
proof (induction rs)
  case Nil
  then show ?case by simp
next
  case (Cons r rs)
  then have k: "f r \<in> set ks" by simp
  have "(\<Sum>k\<leftarrow>ks. length [x \<leftarrow> r # rs. f x = k]) =
        (\<Sum>k\<leftarrow>ks. (if f r = k then 1 else 0) + length [x \<leftarrow> rs. f x = k])"
    by (rule arg_cong [where f = sum_list]) simp
  also have "\<dots> = (\<Sum>k\<leftarrow>ks. if f r = k then 1 else 0) + (\<Sum>k\<leftarrow>ks. length [x \<leftarrow> rs. f x = k])"
    by (simp add: sum_list_addf)
  also have "(\<Sum>k\<leftarrow>ks. if f r = k then 1 else 0) = (1::nat)"
    using Cons.prems(1) k by (simp add: sum_list_indicator)
  finally show ?case using Cons by simp
qed

lemma bars_px_bar: "length (bars (Bars (px_bar df ycol))) = length df"
  using length_groups [of "unique (map country df)" country df]
  by (simp add: px_bar_def length_concat comp_def distinct_unique set_unique)

text \<open>Each ranking chart is the bar chart of the ranking of its selection.\<close>

lemma ranking_charts:
  "create_population_chart srt df c y =
     Inr \<lparr>fig_data = Bars (px_bar (sort_head srt ''pop'' (select_rows df c y)) (\<lambda>r. CInt (pop r))),
          fig_title = None, fig_height = 500\<rparr>"
  "create_gdp_chart srt df c y =
     Inr \<lparr>fig_data = Bars (px_bar (sort_head srt ''gdpPercap'' (select_rows df c y))
                         (\<lambda>r. CFloat (gdpPercap r))),
          fig_title = None, fig_height = 500\<rparr>"
  "create_life_exp_chart srt df c y =
     Inr \<lparr>fig_data = Bars (px_bar (sort_head srt ''lifeExp'' (select_rows df c y))
                         (\<lambda>r. CFloat (lifeExp r))),
          fig_title = None, fig_height = 500\<rparr>"
  by (simp_all add: create_population_chart_def create_gdp_chart_def create_life_exp_chart_def
      create_bar_chart_def getitem_pop getitem_gdpPercap getitem_lifeExp)

lemma sort_head_Nil:
  "sort_values_ok srt \<Longrightarrow> getitem col = Some f \<Longrightarrow> sort_head srt col [] = []"
  using sort_values_length [of srt col f "[]"] by (simp add: sort_head_def)

lemma select_rows_set:
  "set (select_rows df c y) = {r \<in> set df. Str (continent r) = c \<and> Num (year r) = y}"
  by (simp add: select_rows_def)

text \<open>
  When the rows have pairwise different countries, as the rows of one year of the
  Gapminder table have, the bars of the chart are the rows in their order.
\<close>

lemma unique_distinct: "distinct xs \<Longrightarrow> unique xs = xs"
  by (simp add: unique_def distinct_remdups_id)

lemma filter_key_singleton:
  "distinct (map f xs) \<Longrightarrow> x \<in> set xs \<Longrightarrow> [y \<leftarrow> xs. f y = f x] = [x]"
proof (induction xs)
  case Nil
  then show ?case by simp
next
  case (Cons a xs)
  show ?case
  proof (cases "x = a")
    case True
    from Cons.prems(1) have "f a \<notin> f ` set xs" by simp
    then have "\<forall>y \<in> set xs. f y \<noteq> f a" by (metis imageI)
    then have "[y \<leftarrow> xs. f y = f a] = []" by (simp add: filter_empty_conv)
    with True show ?thesis by simp
  next
    case False
    with Cons.prems have m: "x \<in> set xs" and d: "distinct (map f xs)" by auto
    from Cons.prems(1) m have "f a \<noteq> f x" by auto
    with Cons.IH [OF d m] show ?thesis by simp
  qed
qed

lemma px_bar_distinct:
  assumes "distinct (map country df)"
  shows "px_bar df ycol =
           map (\<lambda>r. \<lparr>trace_name = country r, trace_x = [CStr (country r)], trace_y = [ycol r]\<rparr>) df"
proof -
  have "\<And>r. r \<in> set df \<Longrightarrow> [r' \<leftarrow> df. country r' = country r] = [r]"
    using assms by (rule filter_key_singleton)
  then show ?thesis
    by (simp add: px_bar_def unique_distinct [OF assms] comp_def)
qed

lemma bars_px_bar_distinct:
  "distinct (map country df) \<Longrightarrow>
     bars (Bars (px_bar df ycol)) = map (\<lambda>r. (CStr (country r), ycol r)) df"
  by (simp add: px_bar_distinct comp_def)

lemma distinct_sort_head:
  assumes "sort_values_ok srt" and "getitem col = Some f" and "distinct (map g df)"
  shows "distinct (map g (sort_head srt col df))"
proof -
  from assms(1,2) have "mset (srt col df) = mset df"
    unfolding sort_values_ok_def by blast
  then have "mset (map g (srt col df)) = mset (map g df)"
    by (metis mset_map)
  with assms(3) have "distinct (map g (srt col df))"
    by (metis mset_eq_imp_distinct_iff)
  then have "distinct (take 15 (map g (srt col df)))"
    by (rule distinct_take)
  then show ?thesis
    by (simp add: sort_head_def take_map)
qed

text \<open>
  C1. For every continent, year and metric, the chart builder returns the bar chart of the
  ranking: the rows of that continent and year, sorted by the metric and cut after
  fifteen. The chart has one bar for each row of the ranking. The ranking has at most 15
  rows, every row of it is a row of the table with the requested continent and year, and
  its rows are in descending order of the metric; when the selected rows have pairwise
  different countries, the bars of the chart are the rows of the ranking in that order.
  The sorting routine is any routine that returns its input in descending order.
\<close>

theorem ranking_top15_descending:
  assumes "sort_values_ok sort_values"
  shows "create_population_chart sort_values gapminder_df c y =
           Inr \<lparr>fig_data = Bars (px_bar (sort_head sort_values ''pop'' (select_rows gapminder_df c y))
                                 (\<lambda>r. CInt (pop r))),
                fig_title = None, fig_height = 500\<rparr> \<and>
         create_gdp_chart sort_values gapminder_df c y =
           Inr \<lparr>fig_data = Bars (px_bar (sort_head sort_values ''gdpPercap'' (select_rows gapminder_df c y))
                                 (\<lambda>r. CFloat (gdpPercap r))),
                fig_title = None, fig_height = 500\<rparr> \<and>
         create_life_exp_chart sort_values gapminder_df c y =
           Inr \<lparr>fig_data = Bars (px_bar (sort_head sort_values ''lifeExp'' (select_rows gapminder_df c y))
                                 (\<lambda>r. CFloat (lifeExp r))),
                fig_title = None, fig_height = 500\<rparr> \<and>
         length (bars (Bars (px_bar (sort_head sort_values ''pop'' (select_rows gapminder_df c y))
                                   (\<lambda>r. CInt (pop r))))) =
           length (sort_head sort_values ''pop'' (select_rows gapminder_df c y)) \<and>
         length (bars (Bars (px_bar (sort_head sort_values ''gdpPercap'' (select_rows gapminder_df c y))
                                   (\<lambda>r. CFloat (gdpPercap r))))) =
           length (sort_head sort_values ''gdpPercap'' (select_rows gapminder_df c y)) \<and>
         length (bars (Bars (px_bar (sort_head sort_values ''lifeExp'' (select_rows gapminder_df c y))
                                   (\<lambda>r. CFloat (lifeExp r))))) =
           length (sort_head sort_values ''lifeExp'' (select_rows gapminder_df c y)) \<and>
         length (sort_head sort_values ''pop'' (select_rows gapminder_df c y)) \<le> 15 \<and>
         length (sort_head sort_values ''gdpPercap'' (select_rows gapminder_df c y)) \<le> 15 \<and>
         length (sort_head sort_values ''lifeExp'' (select_rows gapminder_df c y)) \<le> 15 \<and>
         (\<forall>r \<in> set (sort_head sort_values ''pop'' (select_rows gapminder_df c y)).
            r \<in> set gapminder_df \<and> Str (continent r) = c \<and> Num (year r) = y) \<and>
         (\<forall>r \<in> set (sort_head sort_values ''gdpPercap'' (select_rows gapminder_df c y)).
            r \<in> set gapminder_df \<and> Str (continent r) = c \<and> Num (year r) = y) \<and>
         (\<forall>r \<in> set (sort_head sort_values ''lifeExp'' (select_rows gapminder_df c y)).
            r \<in> set gapminder_df \<and> Str (continent r) = c \<and> Num (year r) = y) \<and>
         sorted_wrt (\<lambda>a b. pop b \<le> pop a)
           (sort_head sort_values ''pop'' (select_rows gapminder_df c y)) \<and>
         sorted_wrt (\<lambda>a b. gdpPercap b \<le> gdpPercap a)
           (sort_head sort_values ''gdpPercap'' (select_rows gapminder_df c y)) \<and>
         sorted_wrt (\<lambda>a b. lifeExp b \<le> lifeExp a)
           (sort_head sort_values ''lifeExp'' (select_rows gapminder_df c y)) \<and>
         (distinct (map country (select_rows gapminder_df c y)) \<longrightarrow>
            bars (Bars (px_bar (sort_head sort_values ''pop'' (select_rows gapminder_df c y))
                              (\<lambda>r. CInt (pop r)))) =
              map (\<lambda>r. (CStr (country r), CInt (pop r))) (sort_head sort_values ''pop'' (select_rows gapminder_df c y)) \<and>
            bars (Bars (px_bar (sort_head sort_values ''gdpPercap'' (select_rows gapminder_df c y))
                              (\<lambda>r. CFloat (gdpPercap r)))) =
              map (\<lambda>r. (CStr (country r), CFloat (gdpPercap r))) (sort_head sort_values ''gdpPercap'' (select_rows gapminder_df c y)) \<and>
            bars (Bars (px_bar (sort_head sort_values ''lifeExp'' (select_rows gapminder_df c y))
                              (\<lambda>r. CFloat (lifeExp r)))) =
              map (\<lambda>r. (CStr (country r), CFloat (lifeExp r))) (sort_head sort_values ''lifeExp'' (select_rows gapminder_df c y)))"
proof -
  note p = sort_head_props [OF assms getitem_pop, of "select_rows gapminder_df c y"]
  note g = sort_head_props [OF assms getitem_gdpPercap, of "select_rows gapminder_df c y"]
  note l = sort_head_props [OF assms getitem_lifeExp, of "select_rows gapminder_df c y"]
  have m: "\<And>xs r. set xs \<subseteq> set (select_rows gapminder_df c y) \<Longrightarrow> r \<in> set xs \<Longrightarrow>
             r \<in> set gapminder_df \<and> Str (continent r) = c \<and> Num (year r) = y"
    by (auto simp: select_rows_set)
  from p(3) have sp: "sorted_wrt (\<lambda>a b. pop b \<le> pop a)
      (sort_head sort_values ''pop'' (select_rows gapminder_df c y))" by simp
  from g(3) have sg: "sorted_wrt (\<lambda>a b. gdpPercap b \<le> gdpPercap a)
      (sort_head sort_values ''gdpPercap'' (select_rows gapminder_df c y))" by simp
  from l(3) have sl: "sorted_wrt (\<lambda>a b. lifeExp b \<le> lifeExp a)
      (sort_head sort_values ''lifeExp'' (select_rows gapminder_df c y))" by simp
  have d: "distinct (map country (select_rows gapminder_df c y)) \<Longrightarrow>
      distinct (map country (sort_head sort_values col (select_rows gapminder_df c y)))"
    if "getitem col = Some f" for col f
    using assms that by (rule distinct_sort_head)
  note dp = bars_px_bar_distinct [OF d [OF getitem_pop]]
  note dg = bars_px_bar_distinct [OF d [OF getitem_gdpPercap]]
  note dl = bars_px_bar_distinct [OF d [OF getitem_lifeExp]]
  have bp: "create_population_chart sort_values gapminder_df c y =
      Inr \<lparr>fig_data = Bars (px_bar (sort_head sort_values ''pop'' (select_rows gapminder_df c y))
                            (\<lambda>r. CInt (pop r))),
           fig_title = None, fig_height = 500\<rparr>"
    by (simp add: create_population_chart_def create_bar_chart_def getitem_pop)
  have bg: "create_gdp_chart sort_values gapminder_df c y =
      Inr \<lparr>fig_data = Bars (px_bar (sort_head sort_values ''gdpPercap'' (select_rows gapminder_df c y))
                            (\<lambda>r. CFloat (gdpPercap r))),
           fig_title = None, fig_height = 500\<rparr>"
    by (simp add: create_gdp_chart_def create_bar_chart_def getitem_gdpPercap)
  have bl: "create_life_exp_chart sort_values gapminder_df c y =
      Inr \<lparr>fig_data = Bars (px_bar (sort_head sort_values ''lifeExp'' (select_rows gapminder_df c y))
                            (\<lambda>r. CFloat (lifeExp r))),
           fig_title = None, fig_height = 500\<rparr>"
    by (simp add: create_life_exp_chart_def create_bar_chart_def getitem_lifeExp)
  show ?thesis
    using p(1) g(1) l(1) m [OF p(2)] m [OF g(2)] m [OF l(2)] sp sg sl dp dg dl
    by (simp add: bp bg bl bars_px_bar del: bars.simps)
qed

text \<open>The ranking of Asia in 1952 by population, on the example table.\<close>

lemma example_ranking:
  "map country (sort_head insertion_sort_values ''pop''
      (select_rows example_df (Str ''Asia'') (Num 1952))) = [''China'', ''India'', ''Afghanistan'']"
  by (simp add: sort_head_def select_rows_def example_df_def insertion_sort_values_def getitem_pop)

theorem ranking_top15_descending_witness:
  "sort_values_ok insertion_sort_values \<and>
   map country (sort_head insertion_sort_values ''pop''
      (select_rows example_df (Str ''Asia'') (Num 1952))) = [''China'', ''India'', ''Afghanistan''] \<and>
   create_population_chart insertion_sort_values example_df (Str ''Asia'') (Num 1952) =
     Inr \<lparr>fig_data = Bars (px_bar (sort_head insertion_sort_values ''pop''
                                   (select_rows example_df (Str ''Asia'') (Num 1952)))
                           (\<lambda>r. CInt (pop r))),
          fig_title = None, fig_height = 500\<rparr> \<and>
   create_population_chart insertion_sort_values example_df (Str ''Asia'') (Num 1952) =
     Inr \<lparr>fig_data = Bars
            [\<lparr>trace_name = ''China'', trace_x = [CStr ''China''], trace_y = [CInt 556]\<rparr>,
             \<lparr>trace_name = ''India'', trace_x = [CStr ''India''], trace_y = [CInt 372]\<rparr>,
             \<lparr>trace_name = ''Afghanistan'', trace_x = [CStr ''Afghanistan''], trace_y = [CInt 8]\<rparr>],
          fig_title = None, fig_height = 500\<rparr> \<and>
   bars (Bars (px_bar (sort_head insertion_sort_values ''pop''
                         (select_rows example_df (Str ''Asia'') (Num 1952)))
                      (\<lambda>r. CInt (pop r)))) =
     map (\<lambda>r. (CStr (country r), CInt (pop r)))
       (sort_head insertion_sort_values ''pop'' (select_rows example_df (Str ''Asia'') (Num 1952))) \<and>
   length (sort_head insertion_sort_values ''pop''
      (select_rows example_df (Str ''Asia'') (Num 1952))) \<le> 15 \<and>
   set (sort_head insertion_sort_values ''pop'' (select_rows example_df (Str ''Asia'') (Num 1952)))
     \<subseteq> {r. r \<in> set example_df \<and> Str (continent r) = Str ''Asia'' \<and> Num (year r) = Num 1952} \<and>
   sorted_wrt (\<lambda>a b. pop b \<le> pop a)
     (sort_head insertion_sort_values ''pop'' (select_rows example_df (Str ''Asia'') (Num 1952)))"
proof -
  note r = ranking_top15_descending [OF insertion_sort_values_ok, of example_df "Str ''Asia''" "Num 1952"]
  have d: "distinct (map country (select_rows example_df (Str ''Asia'') (Num 1952)))"
    by (simp add: select_rows_def example_df_def)
  have f: "create_population_chart insertion_sort_values example_df (Str ''Asia'') (Num 1952) =
     Inr \<lparr>fig_data = Bars
            [\<lparr>trace_name = ''China'', trace_x = [CStr ''China''], trace_y = [CInt 556]\<rparr>,
             \<lparr>trace_name = ''India'', trace_x = [CStr ''India''], trace_y = [CInt 372]\<rparr>,
             \<lparr>trace_name = ''Afghanistan'', trace_x = [CStr ''Afghanistan''], trace_y = [CInt 8]\<rparr>],
          fig_title = None, fig_height = 500\<rparr>"
    by (simp add: create_population_chart_def create_bar_chart_def getitem_pop sort_head_def
        select_rows_def example_df_def insertion_sort_values_def px_bar_def unique_def)
  have e: "map country (sort_head insertion_sort_values ''pop''
      (select_rows example_df (Str ''Asia'') (Num 1952))) = [''China'', ''India'', ''Afghanistan'']"
    by (simp add: sort_head_def select_rows_def example_df_def insertion_sort_values_def getitem_pop)
  show ?thesis using insertion_sort_values_ok e f r d by blast
qed

subsection \<open>Empty selections, titles and the map\<close>

lemma select_rows_Nil:
  "\<forall>r \<in> set df. \<not> (Str (continent r) = c \<and> Num (year r) = y) \<Longrightarrow> select_rows df c y = []"
  by (simp add: select_rows_def filter_empty_conv)

lemma create_bar_chart_Nil:
  "sort_values_ok srt \<Longrightarrow> getitem col = Some f \<Longrightarrow>
     create_bar_chart srt [] col t = Inr \<lparr>fig_data = Bars [], fig_title = None, fig_height = 500\<rparr>"
  by (simp add: create_bar_chart_def sort_head_Nil px_bar_Nil)

text \<open>
  C3. When no row of the table has the requested continent and year, the selection is
  empty, the ranking of it is empty, and each ranking chart is the chart with zero bars.
  For every continent and year whatsoever the three chart builders return a figure and
  never an error.
\<close>

theorem empty_selection_empty_chart:
  assumes "sort_values_ok sort_values"
    and "\<forall>r \<in> set gapminder_df. \<not> (Str (continent r) = c \<and> Num (year r) = y)"
  shows "select_rows gapminder_df c y = [] \<and>
         sort_head sort_values ''pop'' (select_rows gapminder_df c y) = [] \<and>
         sort_head sort_values ''gdpPercap'' (select_rows gapminder_df c y) = [] \<and>
         sort_head sort_values ''lifeExp'' (select_rows gapminder_df c y) = [] \<and>
         create_population_chart sort_values gapminder_df c y =
           Inr \<lparr>fig_data = Bars [], fig_title = None, fig_height = 500\<rparr> \<and>
         create_gdp_chart sort_values gapminder_df c y =
           Inr \<lparr>fig_data = Bars [], fig_title = None, fig_height = 500\<rparr> \<and>
         create_life_exp_chart sort_values gapminder_df c y =
           Inr \<lparr>fig_data = Bars [], fig_title = None, fig_height = 500\<rparr> \<and>
         (\<exists>fig. create_population_chart sort_values gapminder_df c' y' = Inr fig) \<and>
         (\<exists>fig. create_gdp_chart sort_values gapminder_df c' y' = Inr fig) \<and>
         (\<exists>fig. create_life_exp_chart sort_values gapminder_df c' y' = Inr fig)"
proof -
  have e: "select_rows gapminder_df c y = []"
    using assms(2) by (rule select_rows_Nil)
  have t: "\<exists>fig. create_population_chart sort_values gapminder_df c' y' = Inr fig"
      "\<exists>fig. create_gdp_chart sort_values gapminder_df c' y' = Inr fig"
      "\<exists>fig. create_life_exp_chart sort_values gapminder_df c' y' = Inr fig"
    by (simp_all add: create_population_chart_def create_gdp_chart_def create_life_exp_chart_def
        create_bar_chart_def getitem_pop getitem_gdpPercap getitem_lifeExp)
  show ?thesis
    using t assms(1)
    by (simp add: e create_population_chart_def create_gdp_chart_def create_life_exp_chart_def
        create_bar_chart_Nil sort_head_Nil getitem_pop getitem_gdpPercap getitem_lifeExp)
qed

theorem empty_selection_empty_chart_witness:
  "select_rows example_df (Str ''Oceania'') (Num 1952) = [] \<and>
   create_population_chart insertion_sort_values example_df (Str ''Oceania'') (Num 1952) =
     Inr \<lparr>fig_data = Bars [], fig_title = None, fig_height = 500\<rparr> \<and>
   create_gdp_chart insertion_sort_values example_df (Str ''Asia'') (Num 1953) =
     Inr \<lparr>fig_data = Bars [], fig_title = None, fig_height = 500\<rparr>"
proof -
  have a: "\<forall>r \<in> set example_df. \<not> (Str (continent r) = Str ''Oceania'' \<and> Num (year r) = Num 1952)"
    by (simp add: example_df_def)
  have b: "\<forall>r \<in> set example_df. \<not> (Str (continent r) = Str ''Asia'' \<and> Num (year r) = Num 1953)"
    by (simp add: example_df_def)
  show ?thesis
    using empty_selection_empty_chart [OF insertion_sort_values_ok a]
      empty_selection_empty_chart [OF insertion_sort_values_ok b]
    by blast
qed

text \<open>
  C4. The claim is that the ranking chart carries the caller's title. The code does not:
  \<open>create_bar_chart\<close> returns the same figure whatever title it is given, and that figure
  has no title. So it is for the chart of Asia in 1952, whose caller passes the title
  \<open>Top 15 Populations in Asia (1952)\<close>.
\<close>

theorem create_bar_chart_drops_title:
  "create_bar_chart sort_values df y_col title = create_bar_chart sort_values df y_col [] \<and>
   map_sum id fig_title (create_bar_chart sort_values df ''pop'' title) = Inr None \<and>
   map_sum id fig_title
     (create_population_chart insertion_sort_values example_df (Str ''Asia'') (Num 1952)) = Inr None \<and>
   ''Top 15 Populations in '' @ fmt (Str ''Asia'') @ '' ('' @ fmt (Num 1952) @ '')'' =
     ''Top 15 Populations in Asia (1952)''"
proof -
  have n: "string_of_int 1952 = ''1952''"
    by code_simp
  show ?thesis
    by (simp add: create_bar_chart_def create_population_chart_def getitem_pop n)
qed

lemma dom_map_of_pairs:
  "dom (map_of (map (\<lambda>r. (f r, g r)) rs)) = f ` set rs"
  by (simp add: dom_map_of_conv_image_fst image_image)

text \<open>
  C5. For each of the three metrics and every year, the map is built without error, its
  points are exactly the rows of that year in the order of the table, each located by its
  ISO code and valued by the metric, and the locations that carry a value are exactly the
  ISO codes of those rows: any other country has no value.
\<close>

theorem choropleth_year_slice:
  assumes "v \<in> {''pop'', ''gdpPercap'', ''lifeExp''}"
  shows "\<exists>col fig. getitem v = Some col \<and>
           create_choropleth_map gapminder_df (Str v) y = Inr fig \<and>
           points (fig_data fig) =
             map (\<lambda>r. \<lparr>location = iso_alpha r, z = col r, hover_country = country r\<rparr>)
                 [r \<leftarrow> gapminder_df. Num (year r) = y] \<and>
           dom (value_at fig) = iso_alpha ` {r \<in> set gapminder_df. Num (year r) = y}"
proof -
  from assms obtain col where c: "getitem v = Some col"
    using getitem_pop getitem_gdpPercap getitem_lifeExp by auto
  let ?fig = "\<lparr>fig_data = Choropleth
                 (map (\<lambda>r. \<lparr>location = iso_alpha r, z = col r, hover_country = country r\<rparr>)
                      (select_year gapminder_df y)),
               fig_title = Some (v @ '' Map ('' @ fmt y @ '')''), fig_height = 600\<rparr>"
  from assms have n: "v \<notin> set string_columns"
    by (auto simp: string_columns_def)
  have f: "create_choropleth_map gapminder_df (Str v) y = Inr ?fig"
    by (simp add: create_choropleth_map_def c px_choropleth_def n)
  have d: "dom (value_at ?fig) = iso_alpha ` {r \<in> set gapminder_df. Num (year r) = y}"
    unfolding value_at_def [abs_def]
    by (simp add: comp_def dom_map_of_pairs select_year_def)
  have p: "points (fig_data ?fig) =
             map (\<lambda>r. \<lparr>location = iso_alpha r, z = col r, hover_country = country r\<rparr>)
                 [r \<leftarrow> gapminder_df. Num (year r) = y]"
    by (simp add: select_year_def)
  from c f p d show ?thesis by blast
qed

text \<open>The map of GDP per capita in 1957, on the example table.\<close>

lemma example_map:
  "create_choropleth_map example_df (Str ''gdpPercap'') (Num 1957) =
     Inr \<lparr>fig_data = Choropleth [\<lparr>location = ''CHN'', z = CFloat 576, hover_country = ''China''\<rparr>],
          fig_title = Some ''gdpPercap Map (1957)'', fig_height = 600\<rparr>"
proof -
  have n: "string_of_int 1957 = ''1957''"
    by code_simp
  show ?thesis
    by (simp add: create_choropleth_map_def px_choropleth_def string_columns_def select_year_def
        example_df_def getitem_gdpPercap n)
qed

theorem choropleth_year_slice_witness:
  "''gdpPercap'' \<in> {''pop'', ''gdpPercap'', ''lifeExp''} \<and>
   (\<exists>fig. create_choropleth_map example_df (Str ''gdpPercap'') (Num 1957) = Inr fig \<and>
      points (fig_data fig) = [\<lparr>location = ''CHN'', z = CFloat 576, hover_country = ''China''\<rparr>] \<and>
      value_at fig ''CHN'' = Some (CFloat 576) \<and>
      value_at fig ''IND'' = None \<and>
      dom (value_at fig) = iso_alpha ` {r \<in> set example_df. Num (year r) = Num 1957})"
proof -
  have h: "''gdpPercap'' \<in> {''pop'', ''gdpPercap'', ''lifeExp''}" by simp
  from choropleth_year_slice [OF h, of example_df "Num 1957"]
  obtain fig where
    f: "create_choropleth_map example_df (Str ''gdpPercap'') (Num 1957) = Inr fig" and
    d: "dom (value_at fig) = iso_alpha ` {r \<in> set example_df. Num (year r) = Num 1957}"
    by blast
  from f have e: "fig = \<lparr>fig_data = Choropleth [\<lparr>location = ''CHN'', z = CFloat 576, hover_country = ''China''\<rparr>],
          fig_title = Some ''gdpPercap Map (1957)'', fig_height = 600\<rparr>"
    by (simp add: example_map)
  have p: "points (fig_data fig) = [\<lparr>location = ''CHN'', z = CFloat 576, hover_country = ''China''\<rparr>]"
    by (simp add: e)
  have v: "value_at fig ''CHN'' = Some (CFloat 576)" "value_at fig ''IND'' = None"
    by (simp_all add: e value_at_def)
  from h f p v d show ?thesis by blast
qed

subsection \<open>The update cycle\<close>

lemma triggered_callbacks:
  "triggered Cont_pop (callbacks srt df) =
     [\<lparr>cb_output = Population, cb_input1 = Cont_pop, cb_input2 = Year_pop,
       cb_handler = update_population_chart srt df\<rparr>]"
  "triggered Year_pop (callbacks srt df) =
     [\<lparr>cb_output = Population, cb_input1 = Cont_pop, cb_input2 = Year_pop,
       cb_handler = update_population_chart srt df\<rparr>]"
  "triggered Cont_gdp (callbacks srt df) =
     [\<lparr>cb_output = Gdp, cb_input1 = Cont_gdp, cb_input2 = Year_gdp,
       cb_handler = update_gdp_chart srt df\<rparr>]"
  "triggered Year_gdp (callbacks srt df) =
     [\<lparr>cb_output = Gdp, cb_input1 = Cont_gdp, cb_input2 = Year_gdp,
       cb_handler = update_gdp_chart srt df\<rparr>]"
  "triggered Cont_life_exp (callbacks srt df) =
     [\<lparr>cb_output = Life_expectancy, cb_input1 = Cont_life_exp, cb_input2 = Year_life_exp,
       cb_handler = update_life_exp_chart srt df\<rparr>]"
  "triggered Year_life_exp (callbacks srt df) =
     [\<lparr>cb_output = Life_expectancy, cb_input1 = Cont_life_exp, cb_input2 = Year_life_exp,
       cb_handler = update_life_exp_chart srt df\<rparr>]"
  "triggered Var_map (callbacks srt df) =
     [\<lparr>cb_output = Choropleth_map, cb_input1 = Var_map, cb_input2 = Year_map,
       cb_handler = update_choropleth_map df\<rparr>]"
  "triggered Year_map (callbacks srt df) =
     [\<lparr>cb_output = Choropleth_map, cb_input1 = Var_map, cb_input2 = Year_map,
       cb_handler = update_choropleth_map df\<rparr>]"
  by (simp_all add: triggered_def callbacks_def)

lemma triggered_single:
  "\<exists>cb. triggered c (callbacks srt df) = [cb] \<and> cb_output cb = panel_of c \<and>
        (cb_input1 cb = c \<or> cb_input2 cb = c) \<and>
        panel_of (cb_input1 cb) = panel_of c \<and> panel_of (cb_input2 cb) = panel_of c"
  by (cases c) (simp_all add: triggered_callbacks)

lemma control_values_publish: "control_values (publish cb s) = control_values s"
  by (simp add: publish_def split: sum.splits)

lemma figures_publish_other: "g \<noteq> cb_output cb \<Longrightarrow> figures (publish cb s) g = figures s g"
  by (simp add: publish_def split: sum.splits)

lemma figures_publish_own:
  "figures (publish cb s) (cb_output cb) =
     (case call cb s of Inl e \<Rightarrow> figures s (cb_output cb) | Inr fig \<Rightarrow> Some fig)"
  by (simp add: publish_def split: sum.splits)

lemma on_change_single:
  "triggered c (callbacks srt df) = [cb] \<Longrightarrow> on_change srt df c v s = publish cb (set_value c v s)"
  by (simp add: on_change_def)

lemma control_values_on_change:
  "control_values (on_change srt df c v s) = (control_values s)(c := v)"
proof -
  obtain cb where "triggered c (callbacks srt df) = [cb]"
    using triggered_single by blast
  then show ?thesis
    by (simp add: on_change_single control_values_publish set_value_def)
qed

lemma control_values_fold_publish: "control_values (fold publish cbs s) = control_values s"
  by (induction cbs arbitrary: s) (simp_all add: control_values_publish)

lemma control_values_initial_state:
  "control_values (initial_state srt df) c = dd_value (layout_control df c)"
  by (simp add: initial_state_def control_values_fold_publish)

lemma figures_on_change_own:
  "figures (on_change srt df Cont_pop v s) Population =
     (case create_population_chart srt df v (control_values s Year_pop) of
        Inl e \<Rightarrow> figures s Population | Inr fig \<Rightarrow> Some fig)"
  "figures (on_change srt df Year_pop v s) Population =
     (case create_population_chart srt df (control_values s Cont_pop) v of
        Inl e \<Rightarrow> figures s Population | Inr fig \<Rightarrow> Some fig)"
  "figures (on_change srt df Cont_gdp v s) Gdp =
     (case create_gdp_chart srt df v (control_values s Year_gdp) of
        Inl e \<Rightarrow> figures s Gdp | Inr fig \<Rightarrow> Some fig)"
  "figures (on_change srt df Year_gdp v s) Gdp =
     (case create_gdp_chart srt df (control_values s Cont_gdp) v of
        Inl e \<Rightarrow> figures s Gdp | Inr fig \<Rightarrow> Some fig)"
  "figures (on_change srt df Cont_life_exp v s) Life_expectancy =
     (case create_life_exp_chart srt df v (control_values s Year_life_exp) of
        Inl e \<Rightarrow> figures s Life_expectancy | Inr fig \<Rightarrow> Some fig)"
  "figures (on_change srt df Year_life_exp v s) Life_expectancy =
     (case create_life_exp_chart srt df (control_values s Cont_life_exp) v of
        Inl e \<Rightarrow> figures s Life_expectancy | Inr fig \<Rightarrow> Some fig)"
  by (simp_all add: on_change_def triggered_callbacks publish_def call_def set_value_def
      update_population_chart_def update_gdp_chart_def update_life_exp_chart_def
      split: sum.splits)

text \<open>
  C6. A change of a control republishes the figure of the panel of that control only: the
  figure of every other graph is the one it had, and so is the value of every other
  control.
\<close>

theorem other_panels_unchanged:
  assumes "g \<noteq> panel_of c"
  shows "figures (on_change sort_values gapminder_df c v s) g = figures s g \<and>
         (\<forall>c'. c' \<noteq> c \<longrightarrow>
            control_values (on_change sort_values gapminder_df c v s) c' = control_values s c')"
proof -
  obtain cb where t: "triggered c (callbacks sort_values gapminder_df) = [cb]"
    and o: "cb_output cb = panel_of c"
    using triggered_single by blast
  from assms o have "figures (publish cb (set_value c v s)) g = figures (set_value c v s) g"
    by (simp add: figures_publish_other)
  then have "figures (on_change sort_values gapminder_df c v s) g = figures s g"
    by (simp add: on_change_single [OF t] set_value_def)
  then show ?thesis
    by (simp add: control_values_on_change)
qed

lemma call_cong:
  "control_values s1 (cb_input1 cb) = control_values s2 (cb_input1 cb) \<Longrightarrow>
   control_values s1 (cb_input2 cb) = control_values s2 (cb_input2 cb) \<Longrightarrow>
   call cb s1 = call cb s2"
  by (simp add: call_def)

lemma publish_idem: "publish cb (publish cb s) = publish cb s"
proof (cases "call cb s")
  case (Inl e)
  then show ?thesis by (simp add: publish_def)
next
  case (Inr fig)
  then have "call cb (s\<lparr>figures := (figures s)(cb_output cb \<mapsto> fig)\<rparr>) = Inr fig"
    by (simp add: call_def)
  with Inr show ?thesis by (simp add: publish_def)
qed

lemma set_value_publish:
  "set_value c v (publish cb (set_value c v s)) = publish cb (set_value c v s)"
proof -
  have "control_values (publish cb (set_value c v s)) c = v"
    by (simp add: control_values_publish set_value_def)
  then have "(control_values (publish cb (set_value c v s)))(c := v) =
      control_values (publish cb (set_value c v s))"
    by auto
  then show ?thesis
    unfolding set_value_def [of c v "publish cb (set_value c v s)"] by simp
qed

text \<open>
  C7. The figure an update cycle computes depends on the filter values of its panel and
  on nothing else: from two states that agree on the other control of the panel, the same
  event computes the same result and publishes it alike, and running the same event a
  second time leaves the state as the first run left it.
\<close>

theorem update_cycle_deterministic:
  assumes "\<forall>c'. panel_of c' = panel_of c \<and> c' \<noteq> c \<longrightarrow> control_values s1 c' = control_values s2 c'"
  shows "\<exists>r. cycle_results sort_values gapminder_df c v s1 = [(panel_of c, r)] \<and>
             cycle_results sort_values gapminder_df c v s2 = [(panel_of c, r)] \<and>
             figures (on_change sort_values gapminder_df c v s1) (panel_of c) =
               (case r of Inl e \<Rightarrow> figures s1 (panel_of c) | Inr fig \<Rightarrow> Some fig) \<and>
             figures (on_change sort_values gapminder_df c v s2) (panel_of c) =
               (case r of Inl e \<Rightarrow> figures s2 (panel_of c) | Inr fig \<Rightarrow> Some fig) \<and>
             on_change sort_values gapminder_df c v (on_change sort_values gapminder_df c v s1) =
               on_change sort_values gapminder_df c v s1"
proof -
  obtain cb where t: "triggered c (callbacks sort_values gapminder_df) = [cb]"
    and o: "cb_output cb = panel_of c"
    and p1: "panel_of (cb_input1 cb) = panel_of c" and p2: "panel_of (cb_input2 cb) = panel_of c"
    using triggered_single by blast
  have a1: "control_values (set_value c v s1) (cb_input1 cb) = control_values (set_value c v s2) (cb_input1 cb)"
    using assms p1 by (simp add: set_value_def)
  have a2: "control_values (set_value c v s1) (cb_input2 cb) = control_values (set_value c v s2) (cb_input2 cb)"
    using assms p2 by (simp add: set_value_def)
  have e: "call cb (set_value c v s1) = call cb (set_value c v s2)"
    using a1 a2 by (rule call_cong)
  have r1: "cycle_results sort_values gapminder_df c v s1 = [(panel_of c, call cb (set_value c v s1))]"
    by (simp add: cycle_results_def t o)
  have r2: "cycle_results sort_values gapminder_df c v s2 = [(panel_of c, call cb (set_value c v s1))]"
    by (simp add: cycle_results_def t o e)
  have f1: "figures (on_change sort_values gapminder_df c v s1) (panel_of c) =
      (case call cb (set_value c v s1) of Inl e \<Rightarrow> figures s1 (panel_of c) | Inr fig \<Rightarrow> Some fig)"
    using figures_publish_own [of cb "set_value c v s1"]
    by (simp add: on_change_single [OF t] o set_value_def split: sum.splits)
  have f2: "figures (on_change sort_values gapminder_df c v s2) (panel_of c) =
      (case call cb (set_value c v s1) of Inl e \<Rightarrow> figures s2 (panel_of c) | Inr fig \<Rightarrow> Some fig)"
    using figures_publish_own [of cb "set_value c v s2"] e
    by (simp add: on_change_single [OF t] o set_value_def split: sum.splits)
  have i: "on_change sort_values gapminder_df c v (on_change sort_values gapminder_df c v s1) =
      on_change sort_values gapminder_df c v s1"
    by (simp add: on_change_single [OF t] set_value_publish publish_idem)
  from r1 r2 f1 f2 i show ?thesis by blast
qed

theorem other_panels_unchanged_witness:
  "Gdp \<noteq> panel_of Cont_pop \<and>
   figures (on_change insertion_sort_values example_df Cont_pop (Str ''Europe'')
      (initial_state insertion_sort_values example_df)) Gdp =
     figures (initial_state insertion_sort_values example_df) Gdp \<and>
   control_values (on_change insertion_sort_values example_df Cont_pop (Str ''Europe'')
      (initial_state insertion_sort_values example_df)) Year_gdp = Num 1952 \<and>
   figures (on_change insertion_sort_values example_df Cont_pop (Str ''Europe'')
      (initial_state insertion_sort_values example_df)) Population =
     Some \<lparr>fig_data = Bars
            [\<lparr>trace_name = ''Albania'', trace_x = [CStr ''Albania''], trace_y = [CInt 1]\<rparr>],
          fig_title = None, fig_height = 500\<rparr>"
proof -
  have g: "Gdp \<noteq> panel_of Cont_pop" by simp
  note u = other_panels_unchanged [OF g, of insertion_sort_values example_df "Str ''Europe''"
      "initial_state insertion_sort_values example_df"]
  have y: "control_values (initial_state insertion_sort_values example_df) Year_gdp = Num 1952"
    by (simp add: control_values_initial_state year_dropdown_def)
  have p: "figures (on_change insertion_sort_values example_df Cont_pop (Str ''Europe'')
      (initial_state insertion_sort_values example_df)) Population =
     Some \<lparr>fig_data = Bars
            [\<lparr>trace_name = ''Albania'', trace_x = [CStr ''Albania''], trace_y = [CInt 1]\<rparr>],
          fig_title = None, fig_height = 500\<rparr>"
    by (simp add: figures_on_change_own control_values_initial_state year_dropdown_def
        create_population_chart_def create_bar_chart_def getitem_pop sort_head_def
        select_rows_def example_df_def insertion_sort_values_def px_bar_def unique_def)
  from u y have "control_values (on_change insertion_sort_values example_df Cont_pop (Str ''Europe'')
      (initial_state insertion_sort_values example_df)) Year_gdp = Num 1952"
    by simp
  with g u p show ?thesis by blast
qed

theorem update_cycle_deterministic_witness:
  "cycle_results insertion_sort_values example_df Cont_pop (Str ''Europe'')
      (initial_state insertion_sort_values example_df) =
   cycle_results insertion_sort_values example_df Cont_pop (Str ''Europe'')
      (on_change insertion_sort_values example_df Cont_gdp (Str ''Europe'')
         (initial_state insertion_sort_values example_df)) \<and>
   on_change insertion_sort_values example_df Cont_pop (Str ''Europe'')
      (on_change insertion_sort_values example_df Cont_pop (Str ''Europe'')
         (initial_state insertion_sort_values example_df)) =
   on_change insertion_sort_values example_df Cont_pop (Str ''Europe'')
      (initial_state insertion_sort_values example_df)"
proof -
  have h: "\<forall>c'. panel_of c' = panel_of Cont_pop \<and> c' \<noteq> Cont_pop \<longrightarrow>
      control_values (initial_state insertion_sort_values example_df) c' =
      control_values (on_change insertion_sort_values example_df Cont_gdp (Str ''Europe'')
         (initial_state insertion_sort_values example_df)) c'"
    by (simp add: control_values_on_change)
  from update_cycle_deterministic [OF h, of insertion_sort_values example_df "Str ''Europe''"]
  show ?thesis by metis
qed

subsection \<open>Values outside the option sets\<close>

lemma ranking_chart_empty:
  assumes "sort_values_ok srt" and "select_rows df c y = []"
  shows "create_population_chart srt df c y =
           Inr \<lparr>fig_data = Bars [], fig_title = None, fig_height = 500\<rparr>"
    and "create_gdp_chart srt df c y =
           Inr \<lparr>fig_data = Bars [], fig_title = None, fig_height = 500\<rparr>"
    and "create_life_exp_chart srt df c y =
           Inr \<lparr>fig_data = Bars [], fig_title = None, fig_height = 500\<rparr>"
  using assms
  by (simp_all add: create_population_chart_def create_gdp_chart_def create_life_exp_chart_def
      create_bar_chart_Nil getitem_pop getitem_gdpPercap getitem_lifeExp)

lemma set_continents: "set (continents df) = continent ` set df"
  by (simp add: continents_def set_unique)

lemma set_years: "set (years df) = year ` set df"
  by (simp add: years_def set_unique)

lemma select_rows_outside_continents:
  "v \<notin> set (map Str (continents df)) \<Longrightarrow> select_rows df v y = []"
  by (auto simp: select_rows_def filter_empty_conv set_continents)

lemma select_rows_outside_years:
  "v \<notin> set (map Num (years df)) \<Longrightarrow> select_rows df c v = []"
  by (auto simp: select_rows_def filter_empty_conv set_years)

lemma option_values_continent:
  "option_values df Cont_pop = map Str (continents df)"
  "option_values df Cont_gdp = map Str (continents df)"
  "option_values df Cont_life_exp = map Str (continents df)"
  by (simp_all add: option_values_def continent_dropdown_def comp_def)

lemma option_values_year:
  "option_values df Year_pop = map Num (years df)"
  "option_values df Year_gdp = map Num (years df)"
  "option_values df Year_life_exp = map Num (years df)"
  "option_values df Year_map = map Num (years df)"
  by (simp_all add: option_values_def year_dropdown_def comp_def)

lemma select_year_outside_years:
  "v \<notin> set (map Num (years df)) \<Longrightarrow> select_year df v = []"
  by (auto simp: select_year_def filter_empty_conv set_years)

lemma px_choropleth_Nil: "px_choropleth [] v col = []"
  by (simp add: px_choropleth_def unique_Nil)

lemma option_values_Var_map:
  "option_values df Var_map = [Str ''pop'', Str ''gdpPercap'', Str ''lifeExp'']"
  by (simp add: option_values_def)

lemma choropleth_empty:
  assumes "m \<in> set (option_values df Var_map)" and "select_year df y = []"
  shows "\<exists>t. create_choropleth_map df m y =
           Inr \<lparr>fig_data = Choropleth [], fig_title = Some t, fig_height = 600\<rparr>"
proof -
  from assms(1) obtain v col where "m = Str v" and "getitem v = Some col"
    using getitem_pop getitem_gdpPercap getitem_lifeExp
    by (auto simp: option_values_Var_map)
  with assms(2) show ?thesis
    by (simp add: create_choropleth_map_def px_choropleth_Nil)
qed

lemma cycle_results_ranking:
  "cycle_results srt df Cont_pop v s =
     [(Population, create_population_chart srt df v (control_values s Year_pop))]"
  "cycle_results srt df Year_pop v s =
     [(Population, create_population_chart srt df (control_values s Cont_pop) v)]"
  "cycle_results srt df Cont_gdp v s =
     [(Gdp, create_gdp_chart srt df v (control_values s Year_gdp))]"
  "cycle_results srt df Year_gdp v s =
     [(Gdp, create_gdp_chart srt df (control_values s Cont_gdp) v)]"
  "cycle_results srt df Cont_life_exp v s =
     [(Life_expectancy, create_life_exp_chart srt df v (control_values s Year_life_exp))]"
  "cycle_results srt df Year_life_exp v s =
     [(Life_expectancy, create_life_exp_chart srt df (control_values s Cont_life_exp) v)]"
  "cycle_results srt df Year_map v s =
     [(Choropleth_map, create_choropleth_map df (control_values s Var_map) v)]"
  by (simp_all add: cycle_results_def triggered_callbacks call_def set_value_def
      update_population_chart_def update_gdp_chart_def update_life_exp_chart_def
      update_choropleth_map_def)

lemma figures_on_change_Year_map:
  "figures (on_change srt df Year_map v s) Choropleth_map =
     (case create_choropleth_map df (control_values s Var_map) v of
        Inl e \<Rightarrow> figures s Choropleth_map | Inr fig \<Rightarrow> Some fig)"
  by (simp add: on_change_def triggered_callbacks publish_def call_def set_value_def
      update_choropleth_map_def split: sum.splits)

text \<open>
  C9, as amended. The claim is that an event whose value is outside the option set of its
  control is rejected. The callbacks do not check the value. For a string or an integer
  outside the option set of a continent or year selector, the callback of the panel is
  called with it, returns a figure and no error, and that figure is published: on the
  three ranking panels the chart with zero bars, and on the map panel, when its variable
  selector holds one of its three options, a map without points.
\<close>

theorem invalid_selection_publishes_empty_chart:
  assumes ok: "sort_values_ok sort_values"
    and c: "c \<noteq> Var_map"
    and m: "c = Year_map \<longrightarrow>
              control_values s Var_map \<in> set (option_values gapminder_df Var_map)"
    and v: "v \<notin> set (option_values gapminder_df c)"
  shows "\<exists>fig. cycle_results sort_values gapminder_df c v s = [(panel_of c, Inr fig)] \<and>
           figures (on_change sort_values gapminder_df c v s) (panel_of c) = Some fig \<and>
           fig_data fig = (if c = Year_map then Choropleth [] else Bars []) \<and>
           (c \<noteq> Year_map \<longrightarrow> fig = \<lparr>fig_data = Bars [], fig_title = None, fig_height = 500\<rparr>)"
proof (cases c)
  case Cont_pop
  with v have e: "select_rows gapminder_df v (control_values s Year_pop) = []"
    by (simp add: option_values_continent select_rows_outside_continents)
  have "create_population_chart sort_values gapminder_df v (control_values s Year_pop) =
      Inr \<lparr>fig_data = Bars [], fig_title = None, fig_height = 500\<rparr>"
    using ok by (simp add: create_population_chart_def create_bar_chart_def getitem_pop e sort_head_Nil px_bar_Nil)
  with Cont_pop show ?thesis
    by (simp add: on_change_def cycle_results_def triggered_def callbacks_def publish_def
        call_def set_value_def update_population_chart_def)
next
  case Year_pop
  with v have e: "select_rows gapminder_df (control_values s Cont_pop) v = []"
    by (simp add: option_values_year select_rows_outside_years)
  have "create_population_chart sort_values gapminder_df (control_values s Cont_pop) v =
      Inr \<lparr>fig_data = Bars [], fig_title = None, fig_height = 500\<rparr>"
    using ok by (simp add: create_population_chart_def create_bar_chart_def getitem_pop e sort_head_Nil px_bar_Nil)
  with Year_pop show ?thesis
    by (simp add: on_change_def cycle_results_def triggered_def callbacks_def publish_def
        call_def set_value_def update_population_chart_def)
next
  case Cont_gdp
  with v have e: "select_rows gapminder_df v (control_values s Year_gdp) = []"
    by (simp add: option_values_continent select_rows_outside_continents)
  have "create_gdp_chart sort_values gapminder_df v (control_values s Year_gdp) =
      Inr \<lparr>fig_data = Bars [], fig_title = None, fig_height = 500\<rparr>"
    using ok by (simp add: create_gdp_chart_def create_bar_chart_def getitem_gdpPercap e sort_head_Nil px_bar_Nil)
  with Cont_gdp show ?thesis
    by (simp add: on_change_def cycle_results_def triggered_def callbacks_def publish_def
        call_def set_value_def update_gdp_chart_def)
next
  case Year_gdp
  with v have e: "select_rows gapminder_df (control_values s Cont_gdp) v = []"
    by (simp add: option_values_year select_rows_outside_years)
  have "create_gdp_chart sort_values gapminder_df (control_values s Cont_gdp) v =
      Inr \<lparr>fig_data = Bars [], fig_title = None, fig_height = 500\<rparr>"
    using ok by (simp add: create_gdp_chart_def create_bar_chart_def getitem_gdpPercap e sort_head_Nil px_bar_Nil)
  with Year_gdp show ?thesis
    by (simp add: on_change_def cycle_results_def triggered_def callbacks_def publish_def
        call_def set_value_def update_gdp_chart_def)
next
  case Cont_life_exp
  with v have e: "select_rows gapminder_df v (control_values s Year_life_exp) = []"
    by (simp add: option_values_continent select_rows_outside_continents)
  have "create_life_exp_chart sort_values gapminder_df v (control_values s Year_life_exp) =
      Inr \<lparr>fig_data = Bars [], fig_title = None, fig_height = 500\<rparr>"
    using ok by (simp add: create_life_exp_chart_def create_bar_chart_def getitem_lifeExp e sort_head_Nil px_bar_Nil)
  with Cont_life_exp show ?thesis
    by (simp add: on_change_def cycle_results_def triggered_def callbacks_def publish_def
        call_def set_value_def update_life_exp_chart_def)
next
  case Year_life_exp
  with v have e: "select_rows gapminder_df (control_values s Cont_life_exp) v = []"
    by (simp add: option_values_year select_rows_outside_years)
  have "create_life_exp_chart sort_values gapminder_df (control_values s Cont_life_exp) v =
      Inr \<lparr>fig_data = Bars [], fig_title = None, fig_height = 500\<rparr>"
    using ok by (simp add: create_life_exp_chart_def create_bar_chart_def getitem_lifeExp e sort_head_Nil px_bar_Nil)
  with Year_life_exp show ?thesis
    by (simp add: on_change_def cycle_results_def triggered_def callbacks_def publish_def
        call_def set_value_def update_life_exp_chart_def)
next
  case Var_map
  with c show ?thesis by simp
next
  case Year_map
  with v have e: "select_year gapminder_df v = []"
    by (simp add: option_values_year select_year_outside_years)
  from Year_map m obtain x col where x: "control_values s Var_map = Str x" and g: "getitem x = Some col"
    using getitem_pop getitem_gdpPercap getitem_lifeExp
    by (auto simp: option_values_Var_map)
  have "create_choropleth_map gapminder_df (control_values s Var_map) v =
      Inr \<lparr>fig_data = Choropleth [], fig_title = Some (x @ '' Map ('' @ fmt v @ '')''),
           fig_height = 600\<rparr>"
    by (simp add: create_choropleth_map_def x g e px_choropleth_Nil)
  with Year_map show ?thesis
    by (simp add: on_change_def cycle_results_def triggered_def callbacks_def publish_def
        call_def set_value_def update_choropleth_map_def)
qed

lemma example_continents: "continents example_df = [''Asia'', ''Europe'']"
  by (simp add: continents_def unique_def example_df_def)

lemma example_years: "years example_df = [1952, 1957]"
  by (simp add: years_def unique_def example_df_def)

lemma example_initial_population:
  "figures (initial_state insertion_sort_values example_df) Population =
     Some \<lparr>fig_data = Bars
            [\<lparr>trace_name = ''China'', trace_x = [CStr ''China''], trace_y = [CInt 556]\<rparr>,
             \<lparr>trace_name = ''India'', trace_x = [CStr ''India''], trace_y = [CInt 372]\<rparr>,
             \<lparr>trace_name = ''Afghanistan'', trace_x = [CStr ''Afghanistan''], trace_y = [CInt 8]\<rparr>],
          fig_title = None, fig_height = 500\<rparr>"
  by (simp add: initial_state_def callbacks_def publish_def call_def
      update_population_chart_def update_gdp_chart_def update_life_exp_chart_def
      update_choropleth_map_def create_population_chart_def create_gdp_chart_def
      create_life_exp_chart_def create_choropleth_map_def create_bar_chart_def
      getitem_pop getitem_gdpPercap getitem_lifeExp continent_dropdown_def year_dropdown_def
      sort_head_def select_rows_def example_df_def insertion_sort_values_def px_bar_def unique_def)

text \<open>
  C9, the claim as stated fails: on the example table the continent selector of the
  Population panel offers Asia and Europe; the value \<open>Atlantis\<close> is taken as the new filter
  value and replaces the published chart of three bars by a chart with none.
\<close>

theorem invalid_selection_not_rejected:
  "Str ''Atlantis'' \<notin> set (option_values example_df Cont_pop) \<and>
   control_values (initial_state insertion_sort_values example_df) Cont_pop = Str ''Asia'' \<and>
   control_values (on_change insertion_sort_values example_df Cont_pop (Str ''Atlantis'')
      (initial_state insertion_sort_values example_df)) Cont_pop = Str ''Atlantis'' \<and>
   figures (initial_state insertion_sort_values example_df) Population =
     Some \<lparr>fig_data = Bars
            [\<lparr>trace_name = ''China'', trace_x = [CStr ''China''], trace_y = [CInt 556]\<rparr>,
             \<lparr>trace_name = ''India'', trace_x = [CStr ''India''], trace_y = [CInt 372]\<rparr>,
             \<lparr>trace_name = ''Afghanistan'', trace_x = [CStr ''Afghanistan''], trace_y = [CInt 8]\<rparr>],
          fig_title = None, fig_height = 500\<rparr> \<and>
   figures (on_change insertion_sort_values example_df Cont_pop (Str ''Atlantis'')
      (initial_state insertion_sort_values example_df)) Population =
     Some \<lparr>fig_data = Bars [], fig_title = None, fig_height = 500\<rparr>"
proof -
  have o: "Str ''Atlantis'' \<notin> set (option_values example_df Cont_pop)"
    by (simp add: option_values_continent example_continents)
  have e: "select_rows example_df (Str ''Atlantis'') (Num 1952) = []"
    by (simp add: select_rows_def example_df_def)
  have f: "figures (on_change insertion_sort_values example_df Cont_pop (Str ''Atlantis'')
      (initial_state insertion_sort_values example_df)) Population =
     Some \<lparr>fig_data = Bars [], fig_title = None, fig_height = 500\<rparr>"
    by (simp add: figures_on_change_own control_values_initial_state year_dropdown_def
        ranking_chart_empty [OF insertion_sort_values_ok e])
  show ?thesis
    using o f example_initial_population
    by (simp add: control_values_initial_state control_values_on_change continent_dropdown_def)
qed

lemma example_initial_Var_map:
  "control_values (initial_state insertion_sort_values example_df) Var_map = Str ''lifeExp''"
  by (simp add: control_values_initial_state)

theorem invalid_selection_publishes_empty_chart_witness:
  "Year_gdp \<noteq> Var_map \<and>
   Num 2000 \<notin> set (option_values example_df Year_gdp) \<and>
   figures (on_change insertion_sort_values example_df Year_gdp (Num 2000)
      (initial_state insertion_sort_values example_df)) (panel_of Year_gdp) =
     Some \<lparr>fig_data = Bars [], fig_title = None, fig_height = 500\<rparr> \<and>
   control_values (initial_state insertion_sort_values example_df) Var_map
     \<in> set (option_values example_df Var_map) \<and>
   (\<exists>fig. figures (on_change insertion_sort_values example_df Year_map (Num 2000)
             (initial_state insertion_sort_values example_df)) (panel_of Year_map) = Some fig \<and>
          fig_data fig = Choropleth [])"
proof -
  have c: "Year_gdp \<noteq> Var_map" by simp
  have c': "Year_map \<noteq> Var_map" by simp
  have v: "Num 2000 \<notin> set (option_values example_df Year_gdp)"
    by (simp add: option_values_year example_years)
  have v': "Num 2000 \<notin> set (option_values example_df Year_map)"
    by (simp add: option_values_year example_years)
  have m: "control_values (initial_state insertion_sort_values example_df) Var_map
     \<in> set (option_values example_df Var_map)"
    by (simp add: example_initial_Var_map option_values_Var_map)
  have m1: "Year_gdp = Year_map \<longrightarrow> control_values (initial_state insertion_sort_values example_df) Var_map
     \<in> set (option_values example_df Var_map)" by simp
  have m2: "Year_map = Year_map \<longrightarrow> control_values (initial_state insertion_sort_values example_df) Var_map
     \<in> set (option_values example_df Var_map)" using m by simp
  note a = invalid_selection_publishes_empty_chart [OF insertion_sort_values_ok c m1 v]
  note b = invalid_selection_publishes_empty_chart [OF insertion_sort_values_ok c' m2 v']
  have a': "figures (on_change insertion_sort_values example_df Year_gdp (Num 2000)
      (initial_state insertion_sort_values example_df)) (panel_of Year_gdp) =
     Some \<lparr>fig_data = Bars [], fig_title = None, fig_height = 500\<rparr>"
    using a c by auto
  have b': "\<exists>fig. figures (on_change insertion_sort_values example_df Year_map (Num 2000)
             (initial_state insertion_sort_values example_df)) (panel_of Year_map) = Some fig \<and>
          fig_data fig = Choropleth []"
    using b by auto
  from c v a' m b' show ?thesis by blast
qed

subsection \<open>The table view and the selectors\<close>

lemma column_values_columns:
  "column_values df columns = Inr (map (\<lambda>(n, f). map f df) column_table)"
  by (simp add: columns_def column_table_def getitem_def)

lemma figures_initial_state_Dataset:
  "figures (initial_state srt df) Dataset =
     (case dataset_table df of Inl e \<Rightarrow> None | Inr fig \<Rightarrow> Some fig)"
  by (simp add: initial_state_def callbacks_def figures_publish_other)

text \<open>
  C8. The table of the Dataset tab is built without error; its header is the list of the
  columns of the table in their own order, it has one column of cells for each of them,
  and each column of cells has as many entries as the table has rows. It is the figure of
  the Dataset graph after loading, and no event changes the figure of that graph.
\<close>

theorem dataset_table_all_rows_all_columns:
  "dataset_table gapminder_df =
     Inr \<lparr>fig_data = Table columns (map (\<lambda>(n, f). map f gapminder_df) column_table),
          fig_title = None, fig_height = 600\<rparr> \<and>
   columns = [''country'', ''continent'', ''year'', ''lifeExp'', ''pop'', ''gdpPercap'',
              ''iso_alpha'', ''iso_num''] \<and>
   length (map (\<lambda>(n, f). map f gapminder_df) column_table) = length columns \<and>
   map length (map (\<lambda>(n, f). map f gapminder_df) column_table) =
     map (\<lambda>n. length gapminder_df) columns \<and>
   figures (initial_state sort_values gapminder_df) Dataset =
     Some \<lparr>fig_data = Table columns (map (\<lambda>(n, f). map f gapminder_df) column_table),
           fig_title = None, fig_height = 600\<rparr> \<and>
   figures (on_change sort_values gapminder_df c v s) Dataset = figures s Dataset"
proof -
  have t: "dataset_table gapminder_df =
     Inr \<lparr>fig_data = Table columns (map (\<lambda>(n, f). map f gapminder_df) column_table),
          fig_title = None, fig_height = 600\<rparr>"
    by (simp add: dataset_table_def column_values_columns)
  have c: "columns = [''country'', ''continent'', ''year'', ''lifeExp'', ''pop'', ''gdpPercap'',
              ''iso_alpha'', ''iso_num'']"
    by (simp add: columns_def column_table_def)
  have l: "length (map (\<lambda>(n, f). map f gapminder_df) column_table) = length columns"
    by (simp add: columns_def)
  have m: "map length (map (\<lambda>(n, f). map f gapminder_df) column_table) =
     map (\<lambda>n. length gapminder_df) columns"
    by (simp add: columns_def column_table_def)
  have i: "figures (initial_state sort_values gapminder_df) Dataset =
     Some \<lparr>fig_data = Table columns (map (\<lambda>(n, f). map f gapminder_df) column_table),
           fig_title = None, fig_height = 600\<rparr>"
    by (simp add: figures_initial_state_Dataset t)
  obtain cb where tr: "triggered c (callbacks sort_values gapminder_df) = [cb]"
    and o: "cb_output cb = panel_of c"
    using triggered_single by blast
  have "Dataset \<noteq> cb_output cb"
    unfolding o by (cases c) simp_all
  then have e: "figures (on_change sort_values gapminder_df c v s) Dataset = figures s Dataset"
    by (simp add: on_change_single [OF tr] figures_publish_other set_value_def)
  from t c l m i e show ?thesis by blast
qed

lemma sort_unique: "sort (unique xs) = sorted_list_of_set (set xs)"
proof (rule sorted_distinct_set_unique)
  show "sorted (sort (unique xs))" by simp
  show "distinct (sort (unique xs))" by (simp add: distinct_unique)
  show "sorted (sorted_list_of_set (set xs))" by simp
  show "distinct (sorted_list_of_set (set xs))" by simp
  show "set (sort (unique xs)) = set (sorted_list_of_set (set xs))" by (simp add: set_unique)
qed

text \<open>
  C10. Every continent selector offers exactly the distinct continents of the table, and
  every year selector offers exactly the distinct years of the table in ascending order.
\<close>

theorem selector_options_from_dataset:
  "map (option_values gapminder_df) [Cont_pop, Cont_gdp, Cont_life_exp] =
     [map Str (continents gapminder_df), map Str (continents gapminder_df),
      map Str (continents gapminder_df)] \<and>
   set (continents gapminder_df) = continent ` set gapminder_df \<and>
   distinct (continents gapminder_df) \<and>
   map (option_values gapminder_df) [Year_pop, Year_gdp, Year_life_exp, Year_map] =
     [map Num (years gapminder_df), map Num (years gapminder_df),
      map Num (years gapminder_df), map Num (years gapminder_df)] \<and>
   years gapminder_df = sorted_list_of_set (year ` set gapminder_df) \<and>
   set (years gapminder_df) = year ` set gapminder_df \<and>
   sorted (years gapminder_df) \<and> distinct (years gapminder_df)"
proof -
  have y: "years gapminder_df = sorted_list_of_set (year ` set gapminder_df)"
    by (simp add: years_def sort_unique)
  have d: "distinct (continents gapminder_df)"
    by (simp add: continents_def distinct_unique)
  have s: "sorted (years gapminder_df)" "distinct (years gapminder_df)"
    by (simp_all add: years_def distinct_unique)
  from y d s show ?thesis
    by (simp add: option_values_continent option_values_year set_continents set_years)
qed

end
